theory Spec2Isabelle
  imports Complex_Main
begin

section \<open>The capture runner \<^verbatim>\<open>scripts/screenshot.js\<close>\<close>

text \<open>
  The script is one asynchronous function: it resolves two paths, checks that the input
  exists, reads three environment variables, launches a browser, runs a chain of awaited
  calls inside \<^verbatim>\<open>try\<close>/\<^verbatim>\<open>catch\<close>/\<^verbatim>\<open>finally\<close>, and exits.
  The embedding runs that function on a \<^emph>\<open>world\<close>: everything outside the script that
  decides what its calls return (file system, environment, the outcome of each browser
  call, the page states seen by the polling waits). The result is the list of effects the
  script performs, in order, and the way the process ends.

  The Node.js built-ins the script calls (\<^verbatim>\<open>parseInt\<close>, \<^verbatim>\<open>parseFloat\<close>,
  \<^verbatim>\<open>path.resolve\<close>, \<^verbatim>\<open>path.join\<close>, \<^verbatim>\<open>process.exit\<close>) are modelled after
  ECMAScript and the POSIX variant of the Node.js \<^verbatim>\<open>path\<close> module, on ASCII strings.
\<close>

subsection \<open>Numbers and strings of the host language\<close>

text \<open>
  A number is NaN, an infinity, or a finite value. Finite values are kept exact (a
  rational); rounding to the nearest double is not modelled.
\<close>

datatype jsnum = NaN | Num rat | PosInfinity | NegInfinity

fun num_times :: "jsnum \<Rightarrow> jsnum \<Rightarrow> jsnum" where
  "num_times NaN _ = NaN"
| "num_times _ NaN = NaN"
| "num_times (Num a) (Num b) = Num (a * b)"
| "num_times (Num a) PosInfinity = (if a = 0 then NaN else if 0 < a then PosInfinity else NegInfinity)"
| "num_times (Num a) NegInfinity = (if a = 0 then NaN else if 0 < a then NegInfinity else PosInfinity)"
| "num_times PosInfinity (Num b) = (if b = 0 then NaN else if 0 < b then PosInfinity else NegInfinity)"
| "num_times NegInfinity (Num b) = (if b = 0 then NaN else if 0 < b then NegInfinity else PosInfinity)"
| "num_times PosInfinity PosInfinity = PosInfinity"
| "num_times PosInfinity NegInfinity = NegInfinity"
| "num_times NegInfinity PosInfinity = NegInfinity"
| "num_times NegInfinity NegInfinity = PosInfinity"

definition is_digit :: "char \<Rightarrow> bool" where
  "is_digit c = (c \<in> set ''0123456789'')"

text \<open>The ASCII members of the white space that \<^verbatim>\<open>parseInt\<close> and \<^verbatim>\<open>parseFloat\<close> skip:
  tab, line feed, vertical tab, form feed, carriage return, space.\<close>

definition is_space :: "char \<Rightarrow> bool" where
  "is_space c = (of_char c \<in> {9, 10, 11, 12, 13, 32 :: nat})"

definition digit_val :: "char \<Rightarrow> nat" where
  "digit_val c = of_char c - 48"

text \<open>The value of a string of decimal digits, most significant first.\<close>

definition digits_val :: "string \<Rightarrow> nat" where
  "digits_val ds = foldl (\<lambda>n c. 10 * n + digit_val c) 0 ds"

text \<open>An optional sign: whether it is a minus, and the rest of the string.\<close>

fun strip_sign :: "string \<Rightarrow> bool \<times> string" where
  "strip_sign [] = (False, [])"
| "strip_sign (c # cs) =
     (if c = CHR ''-'' then (True, cs)
      else if c = CHR ''+'' then (False, cs)
      else (False, c # cs))"

text \<open>
  \<^verbatim>\<open>parseInt(s, 10)\<close>: skip leading white space, take an optional sign, then the longest
  run of decimal digits; no digit gives NaN. With the radix given as 10 no \<^verbatim>\<open>0x\<close>
  prefix is recognised. Whatever follows the digits is ignored.
\<close>

definition parseInt10 :: "string \<Rightarrow> jsnum" where
  "parseInt10 s =
     (let (neg, r) = strip_sign (dropWhile is_space s);
          ds = takeWhile is_digit r
      in if ds = [] then NaN
         else Num (if neg then - of_nat (digits_val ds) else of_nat (digits_val ds)))"

text \<open>An exponent part \<^verbatim>\<open>e\<close> or \<^verbatim>\<open>E\<close>, optional sign, at least one digit; absent or
  incomplete, it contributes nothing.\<close>

definition exponent_part :: "string \<Rightarrow> int" where
  "exponent_part r =
     (case r of
        [] \<Rightarrow> 0
      | c # cs \<Rightarrow>
          if c = CHR ''e'' \<or> c = CHR ''E'' then
            (let (eneg, t) = strip_sign cs;
                 es = takeWhile is_digit t
             in if es = [] then 0
                else if eneg then - int (digits_val es) else int (digits_val es))
          else 0)"

definition pow10 :: "int \<Rightarrow> rat" where
  "pow10 e = (if 0 \<le> e then 10 ^ nat e else 1 / 10 ^ nat (- e))"

text \<open>
  \<^verbatim>\<open>parseFloat(s)\<close>: skip leading white space, take an optional sign, then the longest
  prefix that is a decimal literal: \<^verbatim>\<open>Infinity\<close>, or digits with an optional fraction
  and exponent, or a fraction that starts with the point. No such prefix gives NaN.
\<close>

definition parseFloat :: "string \<Rightarrow> jsnum" where
  "parseFloat s =
     (let (neg, r) = strip_sign (dropWhile is_space s)
      in if take 8 r = ''Infinity'' then (if neg then NegInfinity else PosInfinity)
         else
           (let ip = takeWhile is_digit r;
                r1 = dropWhile is_digit r;
                (fp, r2) = (case r1 of
                              [] \<Rightarrow> ([], r1)
                            | c # cs \<Rightarrow>
                                if c = CHR ''.'' then (takeWhile is_digit cs, dropWhile is_digit cs)
                                else ([], r1))
            in if ip = [] \<and> fp = [] then NaN
               else
                 (let m = of_nat (digits_val ip) + of_nat (digits_val fp) / 10 ^ length fp;
                      v = m * pow10 (exponent_part r2)
                  in Num (if neg then - v else v))))"

text \<open>\<^verbatim>\<open>process.env.X || d\<close>: an unset variable is \<^verbatim>\<open>undefined\<close> and an empty
  string is falsy, so both give the default.\<close>

definition env_or :: "string option \<Rightarrow> string \<Rightarrow> string" where
  "env_or v d = (case v of None \<Rightarrow> d | Some s \<Rightarrow> if s = [] then d else s)"

subsection \<open>Paths (the POSIX \<^verbatim>\<open>path\<close> module)\<close>

text \<open>The segments of a path between its separators; the end of the string closes the
  last segment, as the scanning loop of the module does.\<close>

fun split_sep :: "string \<Rightarrow> string list" where
  "split_sep [] = [[]]"
| "split_sep (c # cs) =
     (if c = CHR ''/'' then [] # split_sep cs
      else (case split_sep cs of [] \<Rightarrow> [[c]] | s # ss \<Rightarrow> (c # s) # ss))"

fun join_sep :: "string list \<Rightarrow> string" where
  "join_sep [] = []"
| "join_sep [s] = s"
| "join_sep (s # t # ss) = s @ ''/'' @ join_sep (t # ss)"

text \<open>
  One segment of \<^verbatim>\<open>normalizeString\<close>, on the stack of segments kept so far (top
  first): an empty segment and \<^verbatim>\<open>.\<close> are dropped, \<^verbatim>\<open>..\<close> removes the segment
  before it (or is kept, when the path is relative and nothing is left to remove), any
  other segment is kept.
\<close>

definition norm_step :: "bool \<Rightarrow> string list \<Rightarrow> string \<Rightarrow> string list" where
  "norm_step allowAboveRoot stk seg =
     (if seg = [] \<or> seg = ''.'' then stk
      else if seg = ''..'' then
        (case stk of
           [] \<Rightarrow> if allowAboveRoot then [''..''] else []
         | t # ts \<Rightarrow>
             if t = ''..'' then (if allowAboveRoot then ''..'' # stk else stk) else ts)
      else seg # stk)"

definition normalizeString :: "string \<Rightarrow> bool \<Rightarrow> string" where
  "normalizeString p allowAboveRoot =
     join_sep (rev (foldl (norm_step allowAboveRoot) [] (split_sep p)))"

definition is_absolute :: "string \<Rightarrow> bool" where
  "is_absolute p = (case p of [] \<Rightarrow> False | c # _ \<Rightarrow> c = CHR ''/'')"

definition path_normalize :: "string \<Rightarrow> string" where
  "path_normalize p =
     (if p = [] then ''.''
      else
        (let isAbsolute = is_absolute p;
             trailingSeparator = (last p = CHR ''/'');
             q = normalizeString p (\<not> isAbsolute)
         in if q = [] then (if isAbsolute then ''/'' else if trailingSeparator then ''./'' else ''.'')
            else
              (let q' = (if trailingSeparator then q @ ''/'' else q)
               in if isAbsolute then ''/'' @ q' else q')))"

text \<open>\<^verbatim>\<open>path.join\<close>: the non-empty arguments joined by the separator, normalised.\<close>

definition path_join :: "string list \<Rightarrow> string" where
  "path_join args =
     (let parts = filter (\<lambda>a. a \<noteq> []) args
      in if parts = [] then ''.'' else path_normalize (join_sep parts))"

text \<open>
  The loop of \<^verbatim>\<open>path.resolve\<close>: arguments are taken from the right (the list given
  here is already reversed) and put in front of what is resolved so far, until one is
  absolute; the working directory is read only when no argument was.
\<close>

fun resolve_args :: "string list \<Rightarrow> string \<Rightarrow> string \<Rightarrow> string \<times> bool" where
  "resolve_args [] cwd acc =
     (if cwd = [] then (acc, False) else (cwd @ ''/'' @ acc, is_absolute cwd))"
| "resolve_args (p # ps) cwd acc =
     (if p = [] then resolve_args ps cwd acc
      else if is_absolute p then (p @ ''/'' @ acc, True)
      else resolve_args ps cwd (p @ ''/'' @ acc))"

definition path_resolve :: "string \<Rightarrow> string list \<Rightarrow> string" where
  "path_resolve cwd args =
     (let (resolvedPath, resolvedAbsolute) = resolve_args (rev args) cwd [];
          q = normalizeString resolvedPath (\<not> resolvedAbsolute)
      in if resolvedAbsolute then ''/'' @ q
         else if q \<noteq> [] then q else ''.'')"

text \<open>A segment that normalisation keeps as it is: a name, not empty, not \<^verbatim>\<open>.\<close> or
  \<^verbatim>\<open>..\<close>, without a separator.\<close>

definition plain_seg :: "string \<Rightarrow> bool" where
  "plain_seg seg = (seg \<noteq> [] \<and> seg \<noteq> ''.'' \<and> seg \<noteq> ''..'' \<and> CHR ''/'' \<notin> set seg)"

subsection \<open>The page, as the script observes it\<close>

datatype jsval =
    Undefined
  | Null
  | Boolean bool
  | Number jsnum
  | String string
  | Object "(string \<times> jsval) list"

fun truthy :: "jsval \<Rightarrow> bool" where
  "truthy Undefined = False"
| "truthy Null = False"
| "truthy (Boolean b) = b"
| "truthy (Number n) = (n \<noteq> NaN \<and> n \<noteq> Num 0)"
| "truthy (String s) = (s \<noteq> [])"
| "truthy (Object fs) = True"

text \<open>
  Reading a property: of \<^verbatim>\<open>undefined\<close> or \<^verbatim>\<open>null\<close> it throws a TypeError
  (\<open>None\<close>); of an object it is the stored value, or \<^verbatim>\<open>undefined\<close> when the object
  has none of that name. Only own properties are modelled, so a primitive has none.
\<close>

fun get_prop :: "jsval \<Rightarrow> string \<Rightarrow> jsval option" where
  "get_prop Undefined k = None"
| "get_prop Null k = None"
| "get_prop (Object fs) k = Some (case map_of fs k of None \<Rightarrow> Undefined | Some v \<Rightarrow> v)"
| "get_prop v k = Some Undefined"

text \<open>An element with its bounding box, in CSS pixels.\<close>

record element =
  box_width :: rat
  box_height :: rat

text \<open>
  What the script reads from a page: \<^verbatim>\<open>window.ACA_DB\<close>, the number of elements
  matching \<^verbatim>\<open>.iata-tt\<close>, the \<^verbatim>\<open>complete\<close> property of each element matching
  \<^verbatim>\<open>.leaflet-tile\<close>, and the first element matching \<^verbatim>\<open>.leaflet-container\<close>.
\<close>

record page =
  ACA_DB :: jsval
  iata_tt :: nat
  leaflet_tile :: "jsval list"
  leaflet_container :: "element option"

text \<open>
  The function of the first \<^verbatim>\<open>waitForFunction\<close>:
  \<^verbatim>\<open>window.ACA_DB && window.ACA_DB.latest && document.querySelectorAll(".iata-tt").length > 0\<close>.
  \<^verbatim>\<open>a && b\<close> is \<^verbatim>\<open>a\<close> when \<^verbatim>\<open>a\<close> is falsy and does not evaluate \<^verbatim>\<open>b\<close> then.
\<close>

definition ready_fn :: "page \<Rightarrow> jsval option" where
  "ready_fn pg =
     (let db = ACA_DB pg
      in if \<not> truthy db then Some db
         else
           (case get_prop db ''latest'' of
              None \<Rightarrow> None
            | Some latest \<Rightarrow>
                if \<not> truthy latest then Some latest
                else Some (Boolean (0 < iata_tt pg))))"

text \<open>The function of the second one:
  \<^verbatim>\<open>Array.from(document.querySelectorAll(".leaflet-tile")).every((img) => img.complete)\<close>.\<close>

definition tiles_fn :: "page \<Rightarrow> jsval option" where
  "tiles_fn pg = Some (Boolean (list_all truthy (leaflet_tile pg)))"

text \<open>What \<^verbatim>\<open>waitForSelector(".leaflet-container")\<close> polls for.\<close>

definition selector_fn :: "page \<Rightarrow> bool option" where
  "selector_fn pg = Some (leaflet_container pg \<noteq> None)"

subsection \<open>Calls into the browser library\<close>

datatype error = TimeoutError | ProtocolError | TypeError | Error string

datatype outcome = Resolved | Rejected error

text \<open>
  A polling wait. The observations are the page states at the successive evaluations of
  the polled function, each with the milliseconds elapsed since the wait began, in the
  order they happen. The wait resolves at the first evaluation before the bound that is
  truthy, is rejected when the function throws, and times out when the bound is reached
  first.
\<close>

fun waitTask :: "(page \<Rightarrow> bool option) \<Rightarrow> nat \<Rightarrow> (nat \<times> page) list \<Rightarrow> outcome" where
  "waitTask f timeout [] = Rejected TimeoutError"
| "waitTask f timeout ((t, pg) # obs) =
     (if timeout \<le> t then Rejected TimeoutError
      else
        (case f pg of
           None \<Rightarrow> Rejected TypeError
         | Some b \<Rightarrow> if b then Resolved else waitTask f timeout obs))"

record viewport =
  width :: jsnum
  height :: jsnum
  deviceScaleFactor :: jsnum

record launch_options =
  headless :: bool
  args :: "string list"
  defaultViewport :: viewport

datatype predicate = ReadyFn | TilesFn

text \<open>
  The effects of a run, in the order the script causes them. \<open>WriteFile\<close> is the one
  effect that is the library's: an element screenshot that resolves has written the
  image to its path, and a rejected one is taken to have left the file as it was (the
  library writes the file as the last action of the call).
\<close>

datatype event =
    ConsoleError string "error option"
  | ConsoleLog string string
  | ProcessExit nat
  | Launch launch_options
  | NewPage
  | Goto string string nat
  | WaitForSelector string nat
  | WaitForFunction predicate nat
  | Sleep nat
  | DispatchResize
  | Query string
  | ElementScreenshot element string
  | WriteFile string "jsnum \<times> jsnum"
  | BrowserClose

text \<open>
  The image of an element screenshot is the element's bounding box, each CSS pixel
  rendered as \<open>deviceScaleFactor\<close> device pixels. (Rounding to whole pixels is not
  modelled.)
\<close>

definition png_size :: "viewport \<Rightarrow> element \<Rightarrow> jsnum \<times> jsnum" where
  "png_size vp el =
     (num_times (Num (box_width el)) (deviceScaleFactor vp),
      num_times (Num (box_height el)) (deviceScaleFactor vp))"

subsection \<open>The world\<close>

record world =
  dirname :: string
  cwd :: string
  argv :: "string list"
  env :: "string \<Rightarrow> string option"
  existsSync :: "string \<Rightarrow> bool"
  launch_result :: outcome
  newPage_result :: outcome
  goto_result :: outcome
  selector_obs :: "(nat \<times> page) list"
  ready_obs :: "(nat \<times> page) list"
  tile_obs :: "(nat \<times> page) list"
  evaluate_result :: outcome
  query_result :: outcome
  final_page :: page
  screenshot_result :: outcome
  close_result :: outcome

subsection \<open>Awaited calls in sequence\<close>

text \<open>An action performs some effects and then either throws or returns a value.\<close>

type_synonym 'a action = "event list \<times> (error + 'a)"

definition and_then :: "'a action \<Rightarrow> ('a \<Rightarrow> 'b action) \<Rightarrow> 'b action" where
  "and_then m f =
     (case m of
        (es, Inl e) \<Rightarrow> (es, Inl e)
      | (es, Inr x) \<Rightarrow> (case f x of (es', r) \<Rightarrow> (es @ es', r)))"

definition call :: "event \<Rightarrow> outcome \<Rightarrow> unit action" where
  "call ev oc = ([ev], case oc of Resolved \<Rightarrow> Inr () | Rejected e \<Rightarrow> Inl e)"

definition sleep :: "nat \<Rightarrow> unit action" where
  "sleep ms = ([Sleep ms], Inr ())"

definition throw :: "error \<Rightarrow> 'a action" where
  "throw e = ([], Inl e)"

definition console_log :: "string \<Rightarrow> string \<Rightarrow> unit action" where
  "console_log a b = ([ConsoleLog a b], Inr ())"

text \<open>\<^verbatim>\<open>page.$(sel)\<close>: the first matching element of the page as it is then, or null.\<close>

definition query :: "world \<Rightarrow> string \<Rightarrow> element option action" where
  "query w sel =
     ([Query sel],
      case query_result w of
        Resolved \<Rightarrow> Inr (leaflet_container (final_page w))
      | Rejected e \<Rightarrow> Inl e)"

text \<open>\<^verbatim>\<open>mapEl.screenshot({ path })\<close>.\<close>

definition screenshot :: "world \<Rightarrow> viewport \<Rightarrow> element \<Rightarrow> string \<Rightarrow> unit action" where
  "screenshot w vp el path =
     (case screenshot_result w of
        Resolved \<Rightarrow> ([ElementScreenshot el path, WriteFile path (png_size vp el)], Inr ())
      | Rejected e \<Rightarrow> ([ElementScreenshot el path], Inl e))"

subsection \<open>The script\<close>

definition repoRoot :: "world \<Rightarrow> string" where
  "repoRoot w = path_resolve (cwd w) [dirname w, ''..'']"

definition input_path :: "world \<Rightarrow> string" where
  "input_path w = path_join [repoRoot w, ''docs'', ''index.html'']"

definition output_path :: "world \<Rightarrow> string" where
  "output_path w = path_join [repoRoot w, ''docs'', ''aca_map.png'']"

definition WIDTH :: "world \<Rightarrow> jsnum" where
  "WIDTH w = parseInt10 (env_or (env w ''PNG_W'') ''2400'')"

definition HEIGHT :: "world \<Rightarrow> jsnum" where
  "HEIGHT w = parseInt10 (env_or (env w ''PNG_H'') ''1600'')"

definition SCALE :: "world \<Rightarrow> jsnum" where
  "SCALE w = parseFloat (env_or (env w ''PNG_SCALE'') ''2'')"

definition launch_opts :: "world \<Rightarrow> launch_options" where
  "launch_opts w =
     \<lparr>headless = True,
      args = [''--no-sandbox'', ''--disable-setuid-sandbox'', ''--allow-file-access-from-files''],
      defaultViewport = \<lparr>width = WIDTH w, height = HEIGHT w, deviceScaleFactor = SCALE w\<rparr>\<rparr>"

text \<open>The three polling waits, each with its bound of 60 000 ms.\<close>

definition selector_wait :: "world \<Rightarrow> outcome" where
  "selector_wait w = waitTask selector_fn 60000 (selector_obs w)"

definition ready_wait :: "world \<Rightarrow> outcome" where
  "ready_wait w = waitTask (map_option truthy \<circ> ready_fn) 60000 (ready_obs w)"

definition tiles_wait :: "world \<Rightarrow> outcome" where
  "tiles_wait w = waitTask (map_option truthy \<circ> tiles_fn) 60000 (tile_obs w)"

text \<open>The body of the \<^verbatim>\<open>try\<close> block: each call is awaited before the next is made,
  and the first one that is rejected ends the block.\<close>

definition try_block :: "world \<Rightarrow> unit action" where
  "try_block w =
     and_then (call NewPage (newPage_result w)) (\<lambda>_.
     and_then (call (Goto (''file://'' @ input_path w) ''load'' 120000) (goto_result w)) (\<lambda>_.
     and_then (call (WaitForSelector ''.leaflet-container'' 60000) (selector_wait w)) (\<lambda>_.
     and_then (call (WaitForFunction ReadyFn 60000) (ready_wait w)) (\<lambda>_.
     and_then (call (WaitForFunction TilesFn 60000) (tiles_wait w)) (\<lambda>_.
     and_then (sleep 600) (\<lambda>_.
     and_then (call DispatchResize (evaluate_result w)) (\<lambda>_.
     and_then (sleep 100) (\<lambda>_.
     and_then (query w ''.leaflet-container'') (\<lambda>mapEl.
       case mapEl of
         None \<Rightarrow> throw (Error ''Leaflet map element not found.'')
       | Some el \<Rightarrow>
           and_then (screenshot w (defaultViewport (launch_opts w)) el (output_path w)) (\<lambda>_.
           console_log ''Wrote'' (output_path w)))))))))))"

text \<open>How the process ends: the function ran to its end (exit code 0 once nothing is
  pending), \<^verbatim>\<open>process.exit\<close> was called, or the function's promise was rejected and
  nothing handles it.\<close>

datatype status = Completed | Exited nat | UnhandledRejection error

record run =
  trace :: "event list"
  status :: status

text \<open>
  The whole function. \<^verbatim>\<open>process.exit\<close> ends the process at the point where it is
  called: nothing after it runs. In the \<^verbatim>\<open>catch\<close> block that is the \<^verbatim>\<open>finally\<close>
  block too, which is reached only when the \<^verbatim>\<open>try\<close> block ends without throwing.
  \<^verbatim>\<open>puppeteer.launch\<close> is awaited before the \<^verbatim>\<open>try\<close> is entered, so its rejection
  is handled by nothing.
\<close>

definition main :: "world \<Rightarrow> run" where
  "main w =
     (if \<not> existsSync w (input_path w) then
        \<lparr>trace = [ConsoleError ''Missing docs/index.html. Run generate_map.py first.'' None,
                  ProcessExit 1],
         status = Exited 1\<rparr>
      else
        (case launch_result w of
           Rejected e \<Rightarrow> \<lparr>trace = [Launch (launch_opts w)], status = UnhandledRejection e\<rparr>
         | Resolved \<Rightarrow>
             (case try_block w of
                (es, Inl e) \<Rightarrow>
                  \<lparr>trace = Launch (launch_opts w) # es @
                             [ConsoleError ''Screenshot failed:'' (Some e), ProcessExit 1],
                   status = Exited 1\<rparr>
              | (es, Inr _) \<Rightarrow>
                  \<lparr>trace = Launch (launch_opts w) # es @ [BrowserClose],
                   status = (case close_result w of
                               Resolved \<Rightarrow> Completed
                             | Rejected e \<Rightarrow> UnhandledRejection e)\<rparr>)))"

text \<open>The exit code of the process. An unhandled rejection ends it with code 1 (the
  default of Node.js since version 15).\<close>

definition exit_code :: "run \<Rightarrow> nat" where
  "exit_code r = (case status r of Completed \<Rightarrow> 0 | Exited n \<Rightarrow> n | UnhandledRejection e \<Rightarrow> 1)"

subsection \<open>Reading a run\<close>

text \<open>The steps of a run are its browser calls and its delays; console output, the exit
  and the file written by a screenshot are not steps of their own.\<close>

fun is_step :: "event \<Rightarrow> bool" where
  "is_step (ConsoleError m e) = False"
| "is_step (ConsoleLog a b) = False"
| "is_step (ProcessExit n) = False"
| "is_step (WriteFile p i) = False"
| "is_step ev = True"

definition steps :: "run \<Rightarrow> event list" where
  "steps r = filter is_step (trace r)"

fun is_write :: "event \<Rightarrow> bool" where
  "is_write (WriteFile p i) = True"
| "is_write ev = False"


text \<open>The files a run has written, in order.\<close>

definition written :: "run \<Rightarrow> event list" where
  "written r = filter is_write (trace r)"

text \<open>The readiness sequence: page, navigation, the three polling waits, the two settle
  delays around the resize, and the second look for the map container.\<close>

definition readiness_sequence :: "world \<Rightarrow> event list" where
  "readiness_sequence w =
     [NewPage,
      Goto (''file://'' @ input_path w) ''load'' 120000,
      WaitForSelector ''.leaflet-container'' 60000,
      WaitForFunction ReadyFn 60000,
      WaitForFunction TilesFn 60000,
      Sleep 600,
      DispatchResize,
      Sleep 100,
      Query ''.leaflet-container'']"

text \<open>The one order of all steps, for a map container \<open>el\<close>.\<close>

definition the_order :: "world \<Rightarrow> element \<Rightarrow> event list" where
  "the_order w el =
     Launch (launch_opts w) # readiness_sequence w @
     [ElementScreenshot el (output_path w), BrowserClose]"

text \<open>The four waits that carry a bound, each with its outcome in the world.\<close>

definition bounded_waits :: "world \<Rightarrow> (event \<times> outcome) list" where
  "bounded_waits w =
     [(Goto (''file://'' @ input_path w) ''load'' 120000, goto_result w),
      (WaitForSelector ''.leaflet-container'' 60000, selector_wait w),
      (WaitForFunction ReadyFn 60000, ready_wait w),
      (WaitForFunction TilesFn 60000, tiles_wait w)]"

text \<open>Everything up to the second look for the map container has succeeded.\<close>

definition reaches_recheck :: "world \<Rightarrow> bool" where
  "reaches_recheck w =
     (existsSync w (input_path w) \<and> launch_result w = Resolved \<and>
      newPage_result w = Resolved \<and> goto_result w = Resolved \<and>
      selector_wait w = Resolved \<and> ready_wait w = Resolved \<and> tiles_wait w = Resolved \<and>
      evaluate_result w = Resolved \<and> query_result w = Resolved)"

text \<open>The run that ends in the \<^verbatim>\<open>catch\<close> block: the browser was launched, the calls
  \<open>es\<close> were made, the last of them threw \<open>e\<close>.\<close>

definition caught :: "world \<Rightarrow> event list \<Rightarrow> error \<Rightarrow> run" where
  "caught w es e =
     \<lparr>trace = Launch (launch_opts w) # es @
                [ConsoleError ''Screenshot failed:'' (Some e), ProcessExit 1],
      status = Exited 1\<rparr>"

text \<open>The run that reaches the \<^verbatim>\<open>finally\<close> block, for the map container \<open>el\<close>.\<close>

definition finished :: "world \<Rightarrow> element \<Rightarrow> event list" where
  "finished w el =
     Launch (launch_opts w) # readiness_sequence w @
     [ElementScreenshot el (output_path w),
      WriteFile (output_path w) (png_size (defaultViewport (launch_opts w)) el),
      ConsoleLog ''Wrote'' (output_path w),
      BrowserClose]"

text \<open>A run has failed when it did not run to its end.\<close>

definition failed :: "run \<Rightarrow> bool" where
  "failed r = (status r \<noteq> Completed)"

subsection \<open>The specification's wording of two conditions\<close>

text \<open>
  The readiness condition in the words of the specification: a global database object
  exists and exposes a \<^verbatim>\<open>latest\<close> field, and at least one labeled marker element
  exists.
\<close>

definition spec_ready :: "page \<Rightarrow> bool" where
  "spec_ready pg =
     ((case ACA_DB pg of Object fs \<Rightarrow> map_of fs ''latest'' \<noteq> None | _ \<Rightarrow> False) \<and>
      0 < iata_tt pg)"



subsection \<open>Sample worlds\<close>

definition blank_page :: page where
  "blank_page = \<lparr>ACA_DB = Undefined, iata_tt = 0, leaflet_tile = [], leaflet_container = None\<rparr>"

definition map_page :: page where
  "map_page =
     \<lparr>ACA_DB = Object [(''latest'', String ''2024-01'')],
      iata_tt = 3,
      leaflet_tile = [Boolean True, Boolean True],
      leaflet_container = Some \<lparr>box_width = 2400, box_height = 1600\<rparr>\<rparr>"

text \<open>A run in which everything succeeds: the page is ready 200 ms into the readiness
  wait, no environment variable is set.\<close>

definition good_world :: world where
  "good_world =
     \<lparr>dirname = ''/home/u/repo/scripts'',
      cwd = ''/work'',
      argv = [''node'', ''/home/u/repo/scripts/screenshot.js''],
      env = (\<lambda>k. None),
      existsSync = (\<lambda>p. p = ''/home/u/repo/docs/index.html''),
      launch_result = Resolved,
      newPage_result = Resolved,
      goto_result = Resolved,
      selector_obs = [(0, map_page)],
      ready_obs = [(0, blank_page), (200, map_page)],
      tile_obs = [(100, map_page)],
      evaluate_result = Resolved,
      query_result = Resolved,
      final_page = map_page,
      screenshot_result = Resolved,
      close_result = Resolved\<rparr>"

text \<open>The input file is missing.\<close>

definition missing_world :: world where
  "missing_world = good_world\<lparr>existsSync := (\<lambda>p. False)\<rparr>"

text \<open>The navigation times out.\<close>

definition goto_timeout_world :: world where
  "goto_timeout_world = good_world\<lparr>goto_result := Rejected TimeoutError\<rparr>"

text \<open>One tile is still loading at every poll before the bound.\<close>

definition loading_page :: page where
  "loading_page = map_page\<lparr>leaflet_tile := [Boolean True, Boolean False]\<rparr>"

definition tiles_timeout_world :: world where
  "tiles_timeout_world =
     good_world\<lparr>tile_obs := [(0, loading_page), (30000, loading_page), (60000, map_page)]\<rparr>"

text \<open>Everything succeeds, then closing the browser is rejected.\<close>

definition close_rejected_world :: world where
  "close_rejected_world = good_world\<lparr>close_result := Rejected ProtocolError\<rparr>"

text \<open>The database object is there and its \<^verbatim>\<open>latest\<close> field holds the number 0.\<close>

definition zero_latest_page :: page where
  "zero_latest_page = map_page\<lparr>ACA_DB := Object [(''latest'', Number (Num 0))]\<rparr>"

definition zero_latest_world :: world where
  "zero_latest_world =
     good_world\<lparr>ready_obs := [(0, zero_latest_page), (59999, zero_latest_page)]\<rparr>"



text \<open>The map container is gone when it is looked for the second time.\<close>

definition vanished_world :: world where
  "vanished_world = good_world\<lparr>final_page := blank_page\<rparr>"

text \<open>The same script started from another directory, with other arguments and
  variables.\<close>

definition elsewhere_world :: world where
  "elsewhere_world =
     good_world\<lparr>cwd := ''/tmp'', argv := [''node'', ''scripts/screenshot.js'', ''--x''],
                env := [''HOME'' \<mapsto> ''/root'']\<rparr>"



section \<open>Properties\<close>

subsection \<open>Sequencing\<close>

lemma and_then_call_Resolved:
  "and_then (call ev Resolved) f = (ev # fst (f ()), snd (f ()))"
  by (simp add: and_then_def call_def split: prod.splits)

lemma and_then_call_Rejected:
  "and_then (call ev (Rejected e)) f = ([ev], Inl e)"
  by (simp add: and_then_def call_def)

lemma and_then_sleep:
  "and_then (sleep ms) f = (Sleep ms # fst (f ()), snd (f ()))"
  by (simp add: and_then_def sleep_def split: prod.splits)

lemma and_then_query_Resolved:
  "query_result w = Resolved \<Longrightarrow>
   and_then (query w sel) f =
     (Query sel # fst (f (leaflet_container (final_page w))),
      snd (f (leaflet_container (final_page w))))"
  by (simp add: and_then_def query_def split: prod.splits)

lemma and_then_query_Rejected:
  "query_result w = Rejected e \<Longrightarrow> and_then (query w sel) f = ([Query sel], Inl e)"
  by (simp add: and_then_def query_def)

lemma and_then_screenshot_Resolved:
  "screenshot_result w = Resolved \<Longrightarrow>
   and_then (screenshot w vp el p) f =
     (ElementScreenshot el p # WriteFile p (png_size vp el) # fst (f ()), snd (f ()))"
  by (simp add: and_then_def screenshot_def split: prod.splits)

lemma and_then_screenshot_Rejected:
  "screenshot_result w = Rejected e \<Longrightarrow>
   and_then (screenshot w vp el p) f = ([ElementScreenshot el p], Inl e)"
  by (simp add: and_then_def screenshot_def)

lemmas seq_simps =
  and_then_call_Resolved and_then_call_Rejected and_then_sleep
  and_then_query_Resolved and_then_query_Rejected
  and_then_screenshot_Resolved and_then_screenshot_Rejected

text \<open>The ways the \<^verbatim>\<open>try\<close> block can end: at the first call that is rejected, at the
  missing element, or after the confirmation message.\<close>

lemma try_block_cases [case_names newPage goto selector ready tiles evaluate query absent shot ok]:
  obtains
    e where "newPage_result w = Rejected e"
      and "try_block w = (take 1 (readiness_sequence w), Inl e)"
  | e where "newPage_result w = Resolved" and "goto_result w = Rejected e"
      and "try_block w = (take 2 (readiness_sequence w), Inl e)"
  | e where "newPage_result w = Resolved" and "goto_result w = Resolved"
      and "selector_wait w = Rejected e"
      and "try_block w = (take 3 (readiness_sequence w), Inl e)"
  | e where "newPage_result w = Resolved" and "goto_result w = Resolved"
      and "selector_wait w = Resolved" and "ready_wait w = Rejected e"
      and "try_block w = (take 4 (readiness_sequence w), Inl e)"
  | e where "newPage_result w = Resolved" and "goto_result w = Resolved"
      and "selector_wait w = Resolved" and "ready_wait w = Resolved"
      and "tiles_wait w = Rejected e"
      and "try_block w = (take 5 (readiness_sequence w), Inl e)"
  | e where "newPage_result w = Resolved" and "goto_result w = Resolved"
      and "selector_wait w = Resolved" and "ready_wait w = Resolved"
      and "tiles_wait w = Resolved" and "evaluate_result w = Rejected e"
      and "try_block w = (take 7 (readiness_sequence w), Inl e)"
  | e where "newPage_result w = Resolved" and "goto_result w = Resolved"
      and "selector_wait w = Resolved" and "ready_wait w = Resolved"
      and "tiles_wait w = Resolved" and "evaluate_result w = Resolved"
      and "query_result w = Rejected e"
      and "try_block w = (readiness_sequence w, Inl e)"
  | "newPage_result w = Resolved" and "goto_result w = Resolved"
      and "selector_wait w = Resolved" and "ready_wait w = Resolved"
      and "tiles_wait w = Resolved" and "evaluate_result w = Resolved"
      and "query_result w = Resolved" and "leaflet_container (final_page w) = None"
      and "try_block w = (readiness_sequence w, Inl (Error ''Leaflet map element not found.''))"
  | e el where "newPage_result w = Resolved" and "goto_result w = Resolved"
      and "selector_wait w = Resolved" and "ready_wait w = Resolved"
      and "tiles_wait w = Resolved" and "evaluate_result w = Resolved"
      and "query_result w = Resolved" and "leaflet_container (final_page w) = Some el"
      and "screenshot_result w = Rejected e"
      and "try_block w = (readiness_sequence w @ [ElementScreenshot el (output_path w)], Inl e)"
  | el where "newPage_result w = Resolved" and "goto_result w = Resolved"
      and "selector_wait w = Resolved" and "ready_wait w = Resolved"
      and "tiles_wait w = Resolved" and "evaluate_result w = Resolved"
      and "query_result w = Resolved" and "leaflet_container (final_page w) = Some el"
      and "screenshot_result w = Resolved"
      and "try_block w =
             (readiness_sequence w @
                [ElementScreenshot el (output_path w),
                 WriteFile (output_path w) (png_size (defaultViewport (launch_opts w)) el),
                 ConsoleLog ''Wrote'' (output_path w)],
              Inr ())"
proof (cases "newPage_result w")
  case (Rejected e)
  then show ?thesis
    using that(1) by (simp add: try_block_def readiness_sequence_def seq_simps)
next
  case r1: Resolved
  show ?thesis
  proof (cases "goto_result w")
    case (Rejected e)
    then show ?thesis
      using that(2) r1 by (simp add: try_block_def readiness_sequence_def seq_simps)
  next
    case r2: Resolved
    show ?thesis
    proof (cases "selector_wait w")
      case (Rejected e)
      then show ?thesis
        using that(3) r1 r2 by (simp add: try_block_def readiness_sequence_def seq_simps)
    next
      case r3: Resolved
      show ?thesis
      proof (cases "ready_wait w")
        case (Rejected e)
        then show ?thesis
          using that(4) r1 r2 r3 by (simp add: try_block_def readiness_sequence_def seq_simps)
      next
        case r4: Resolved
        show ?thesis
        proof (cases "tiles_wait w")
          case (Rejected e)
          then show ?thesis
            using that(5) r1 r2 r3 r4
            by (simp add: try_block_def readiness_sequence_def seq_simps)
        next
          case r5: Resolved
          show ?thesis
          proof (cases "evaluate_result w")
            case (Rejected e)
            then show ?thesis
              using that(6) r1 r2 r3 r4 r5
              by (simp add: try_block_def readiness_sequence_def seq_simps)
          next
            case r6: Resolved
            show ?thesis
            proof (cases "query_result w")
              case (Rejected e)
              then show ?thesis
                using that(7) r1 r2 r3 r4 r5 r6
                by (simp add: try_block_def readiness_sequence_def seq_simps)
            next
              case r7: Resolved
              show ?thesis
              proof (cases "leaflet_container (final_page w)")
                case None
                then show ?thesis
                  using that(8) r1 r2 r3 r4 r5 r6 r7
                  by (simp add: try_block_def readiness_sequence_def seq_simps throw_def)
              next
                case (Some el)
                show ?thesis
                proof (cases "screenshot_result w")
                  case (Rejected e)
                  then show ?thesis
                    using that(9) [of el e] r1 r2 r3 r4 r5 r6 r7 Some
                    by (simp add: try_block_def readiness_sequence_def seq_simps)
                next
                  case Resolved
                  then show ?thesis
                    using that(10) [of el] r1 r2 r3 r4 r5 r6 r7 Some
                    by (simp add: try_block_def readiness_sequence_def seq_simps console_log_def)
                qed
              qed
            qed
          qed
        qed
      qed
    qed
  qed
qed


text \<open>The ways a whole run can end.\<close>

lemma main_cases [case_names missing launch failed closed close_rejected]:
  obtains
    "\<not> existsSync w (input_path w)"
      and "main w =
             \<lparr>trace = [ConsoleError ''Missing docs/index.html. Run generate_map.py first.'' None,
                       ProcessExit 1],
              status = Exited 1\<rparr>"
  | e where "existsSync w (input_path w)" and "launch_result w = Rejected e"
      and "main w = \<lparr>trace = [Launch (launch_opts w)], status = UnhandledRejection e\<rparr>"
  | es e where "existsSync w (input_path w)" and "launch_result w = Resolved"
      and "try_block w = (es, Inl e)"
      and "main w =
             \<lparr>trace = Launch (launch_opts w) # es @
                        [ConsoleError ''Screenshot failed:'' (Some e), ProcessExit 1],
              status = Exited 1\<rparr>"
  | es where "existsSync w (input_path w)" and "launch_result w = Resolved"
      and "try_block w = (es, Inr ())" and "close_result w = Resolved"
      and "main w = \<lparr>trace = Launch (launch_opts w) # es @ [BrowserClose], status = Completed\<rparr>"
  | es e where "existsSync w (input_path w)" and "launch_result w = Resolved"
      and "try_block w = (es, Inr ())" and "close_result w = Rejected e"
      and "main w =
             \<lparr>trace = Launch (launch_opts w) # es @ [BrowserClose],
              status = UnhandledRejection e\<rparr>"
proof (cases "existsSync w (input_path w)")
  case False
  then show ?thesis using that(1) by (simp add: main_def)
next
  case ex: True
  show ?thesis
  proof (cases "launch_result w")
    case (Rejected e)
    then show ?thesis using that(2) ex by (simp add: main_def)
  next
    case la: Resolved
    obtain es r where tb: "try_block w = (es, r)" by (cases "try_block w")
    show ?thesis
    proof (cases r)
      case (Inl e)
      then show ?thesis using that(3) ex la tb by (simp add: main_def)
    next
      case (Inr u)
      show ?thesis
      proof (cases "close_result w")
        case Resolved
        then show ?thesis using that(4) ex la tb Inr by (simp add: main_def)
      next
        case (Rejected e)
        then show ?thesis using that(5) ex la tb Inr by (simp add: main_def)
      qed
    qed
  qed
qed

text \<open>Every run is one of these thirteen.\<close>

lemma run_cases
  [case_names missing launch newPage goto selector ready tiles evaluate query absent shot
    closed close_rejected]:
  obtains
    "\<not> existsSync w (input_path w)"
      and "main w =
             \<lparr>trace = [ConsoleError ''Missing docs/index.html. Run generate_map.py first.'' None,
                       ProcessExit 1],
              status = Exited 1\<rparr>"
  | e where "existsSync w (input_path w)" and "launch_result w = Rejected e"
      and "main w = \<lparr>trace = [Launch (launch_opts w)], status = UnhandledRejection e\<rparr>"
  | e where "existsSync w (input_path w)" and "launch_result w = Resolved"
      and "newPage_result w = Rejected e"
      and "main w = caught w (take 1 (readiness_sequence w)) e"
  | e where "existsSync w (input_path w)" and "launch_result w = Resolved"
      and "newPage_result w = Resolved" and "goto_result w = Rejected e"
      and "main w = caught w (take 2 (readiness_sequence w)) e"
  | e where "existsSync w (input_path w)" and "launch_result w = Resolved"
      and "newPage_result w = Resolved" and "goto_result w = Resolved"
      and "selector_wait w = Rejected e"
      and "main w = caught w (take 3 (readiness_sequence w)) e"
  | e where "existsSync w (input_path w)" and "launch_result w = Resolved"
      and "newPage_result w = Resolved" and "goto_result w = Resolved"
      and "selector_wait w = Resolved" and "ready_wait w = Rejected e"
      and "main w = caught w (take 4 (readiness_sequence w)) e"
  | e where "existsSync w (input_path w)" and "launch_result w = Resolved"
      and "newPage_result w = Resolved" and "goto_result w = Resolved"
      and "selector_wait w = Resolved" and "ready_wait w = Resolved"
      and "tiles_wait w = Rejected e"
      and "main w = caught w (take 5 (readiness_sequence w)) e"
  | e where "existsSync w (input_path w)" and "launch_result w = Resolved"
      and "newPage_result w = Resolved" and "goto_result w = Resolved"
      and "selector_wait w = Resolved" and "ready_wait w = Resolved"
      and "tiles_wait w = Resolved" and "evaluate_result w = Rejected e"
      and "main w = caught w (take 7 (readiness_sequence w)) e"
  | e where "existsSync w (input_path w)" and "launch_result w = Resolved"
      and "newPage_result w = Resolved" and "goto_result w = Resolved"
      and "selector_wait w = Resolved" and "ready_wait w = Resolved"
      and "tiles_wait w = Resolved" and "evaluate_result w = Resolved"
      and "query_result w = Rejected e"
      and "main w = caught w (readiness_sequence w) e"
  | "reaches_recheck w" and "leaflet_container (final_page w) = None"
      and "main w = caught w (readiness_sequence w) (Error ''Leaflet map element not found.'')"
  | e el where "reaches_recheck w" and "leaflet_container (final_page w) = Some el"
      and "screenshot_result w = Rejected e"
      and "main w = caught w (readiness_sequence w @ [ElementScreenshot el (output_path w)]) e"
  | el where "reaches_recheck w" and "leaflet_container (final_page w) = Some el"
      and "screenshot_result w = Resolved" and "close_result w = Resolved"
      and "main w = \<lparr>trace = finished w el, status = Completed\<rparr>"
  | e el where "reaches_recheck w" and "leaflet_container (final_page w) = Some el"
      and "screenshot_result w = Resolved" and "close_result w = Rejected e"
      and "main w = \<lparr>trace = finished w el, status = UnhandledRejection e\<rparr>"
proof (cases w rule: main_cases)
  case missing
  then show ?thesis using that(1) by simp
next
  case (launch e)
  then show ?thesis using that(2) by simp
next
  case (failed es e)
  note f = failed
  show ?thesis
  proof (cases w rule: try_block_cases)
    case (newPage e')
    then show ?thesis using that(3) f by (simp add: caught_def)
  next
    case (goto e')
    then show ?thesis using that(4) f by (simp add: caught_def)
  next
    case (selector e')
    then show ?thesis using that(5) f by (simp add: caught_def)
  next
    case (ready e')
    then show ?thesis using that(6) f by (simp add: caught_def)
  next
    case (tiles e')
    then show ?thesis using that(7) f by (simp add: caught_def)
  next
    case (evaluate e')
    then show ?thesis using that(8) f by (simp add: caught_def)
  next
    case (query e')
    then show ?thesis using that(9) f by (simp add: caught_def)
  next
    case absent
    then show ?thesis using that(10) f by (simp add: caught_def reaches_recheck_def)
  next
    case (shot e' el)
    then show ?thesis using that(11) [of el e'] f by (simp add: caught_def reaches_recheck_def)
  next
    case (ok el)
    then show ?thesis using f by simp
  qed
next
  case (closed es)
  note c = closed
  show ?thesis
  proof (cases w rule: try_block_cases)
    case (ok el)
    then show ?thesis using that(12) [of el] c by (simp add: finished_def reaches_recheck_def)
  qed (use c in simp_all)
next
  case (close_rejected es e)
  note c = close_rejected
  show ?thesis
  proof (cases w rule: try_block_cases)
    case (ok el)
    then show ?thesis using that(13) [of el e] c by (simp add: finished_def reaches_recheck_def)
  qed (use c in simp_all)
qed


subsection \<open>Paths\<close>

lemma split_sep_not_Nil: "split_sep s \<noteq> []"
  by (induction s) (auto split: list.splits)

lemma split_sep_append: "split_sep (a @ CHR ''/'' # b) = split_sep a @ split_sep b"
proof (induction a)
  case Nil
  then show ?case by simp
next
  case (Cons c a)
  then show ?case
    using split_sep_not_Nil [of a] by (cases "split_sep a") auto
qed

lemma split_sep_plain: "CHR ''/'' \<notin> set s \<Longrightarrow> split_sep s = [s]"
  by (induction s) auto

lemma split_sep_segments: "seg \<in> set (split_sep s) \<Longrightarrow> CHR ''/'' \<notin> set seg"
proof (induction s arbitrary: seg)
  case Nil
  then show ?case by simp
next
  case (Cons c s)
  then show ?case
    using split_sep_not_Nil [of s] by (cases "split_sep s") (auto split: if_splits)
qed

lemma split_join_sep:
  "segs \<noteq> [] \<Longrightarrow> \<forall>seg \<in> set segs. CHR ''/'' \<notin> set seg \<Longrightarrow>
   split_sep (join_sep segs) = segs"
proof (induction segs rule: join_sep.induct)
  case 1
  then show ?case by simp
next
  case (2 s)
  then show ?case by (simp add: split_sep_plain)
next
  case (3 s t ss)
  then show ?case by (simp add: split_sep_append split_sep_plain)
qed

lemma join_sep_Nil_iff: "join_sep segs = [] \<longleftrightarrow> segs = [] \<or> segs = [[]]"
  by (induction segs rule: join_sep.induct) auto


lemma norm_step_False_cases:
  "norm_step False stk seg = stk \<or> norm_step False stk seg = tl stk \<or>
   (norm_step False stk seg = seg # stk \<and> seg \<noteq> [] \<and> seg \<noteq> ''.'' \<and> seg \<noteq> ''..'')"
  by (cases stk) (simp_all add: norm_step_def)

lemma norm_step_plain:
  assumes "\<forall>t \<in> set stk. plain_seg t" and "CHR ''/'' \<notin> set seg"
  shows "\<forall>t \<in> set (norm_step False stk seg). plain_seg t"
proof -
  consider "norm_step False stk seg = stk" | "norm_step False stk seg = tl stk"
    | "norm_step False stk seg = seg # stk" and "seg \<noteq> []" and "seg \<noteq> ''.''"
      and "seg \<noteq> ''..''"
    using norm_step_False_cases [of stk seg] by blast
  then show ?thesis
  proof cases
    case 1
    then show ?thesis using assms(1) by simp
  next
    case 2
    then show ?thesis using assms(1) by (cases stk) simp_all
  next
    case 3
    then have "plain_seg seg" using assms(2) by (simp add: plain_seg_def)
    then show ?thesis using 3(1) assms(1) by simp
  qed
qed

lemma foldl_norm_step_plain:
  "\<forall>t \<in> set stk. plain_seg t \<Longrightarrow> \<forall>seg \<in> set segs. CHR ''/'' \<notin> set seg \<Longrightarrow>
   \<forall>t \<in> set (foldl (norm_step False) stk segs). plain_seg t"
proof (induction segs arbitrary: stk)
  case Nil
  then show ?case by simp
next
  case (Cons seg segs)
  have "\<forall>t \<in> set (norm_step False stk seg). plain_seg t"
    using Cons.prems by (intro norm_step_plain) auto
  then show ?case using Cons by simp
qed

lemma norm_step_push: "plain_seg seg \<Longrightarrow> norm_step allow stk seg = seg # stk"
  by (simp add: norm_step_def plain_seg_def)

lemma foldl_norm_step_push:
  "\<forall>seg \<in> set segs. plain_seg seg \<Longrightarrow>
   foldl (norm_step allow) stk segs = rev segs @ stk"
  by (induction segs arbitrary: stk) (simp_all add: norm_step_push)

text \<open>Normalising what a normalisation has produced changes nothing.\<close>

lemma foldl_norm_step_rejoin:
  assumes "\<forall>t \<in> set stk. plain_seg t"
  shows "foldl (norm_step allow) acc (split_sep (join_sep (rev stk))) = stk @ acc"
proof (cases "stk = []")
  case True
  then show ?thesis by (simp add: norm_step_def)
next
  case False
  have "split_sep (join_sep (rev stk)) = rev stk"
    using assms False by (intro split_join_sep) (auto simp: plain_seg_def)
  then show ?thesis
    using assms by (simp add: foldl_norm_step_push)
qed


lemma norm_step_Nil: "norm_step allow stk [] = stk"
  by (simp add: norm_step_def)

text \<open>The segments of the parent of an absolute directory, innermost first.\<close>

lemma resolve_parent:
  assumes "is_absolute d"
  shows "path_resolve c [d, ''..''] =
           ''/'' @ join_sep (rev (norm_step False (foldl (norm_step False) [] (split_sep d)) ''..''))"
proof -
  have d: "d \<noteq> []" using assms by (auto simp: is_absolute_def)
  have ra: "path_resolve c [d, ''..''] = ''/'' @ normalizeString (d @ ''/../'') False"
    using assms d by (simp add: path_resolve_def is_absolute_def)
  have "split_sep (d @ ''/../'') = split_sep d @ [''..'', []]"
    using split_sep_append [of d "''../''"] by simp
  then have "normalizeString (d @ ''/../'') False =
               join_sep (rev (norm_step False (foldl (norm_step False) [] (split_sep d)) ''..''))"
    by (simp add: normalizeString_def norm_step_Nil)
  then show ?thesis
    by (simp only: ra)
qed

lemma parent_stack_plain:
  "\<forall>t \<in> set (norm_step False (foldl (norm_step False) [] (split_sep d)) ''..''). plain_seg t"
proof -
  have "\<forall>t \<in> set (foldl (norm_step False) [] (split_sep d)). plain_seg t"
    by (intro foldl_norm_step_plain) (auto dest: split_sep_segments)
  then show ?thesis by (intro norm_step_plain) auto
qed

lemma last_plain_seg:
  assumes "plain_seg f"
  shows "last (p @ CHR ''/'' # f) \<noteq> CHR ''/''"
proof -
  have f: "f \<noteq> []" "CHR ''/'' \<notin> set f" using assms by (auto simp: plain_seg_def)
  then have "last (p @ CHR ''/'' # f) = last f" by simp
  moreover have "last f \<in> set f" using f(1) by (rule last_in_set)
  ultimately show ?thesis using f(2) by metis
qed

text \<open>Joining \<^verbatim>\<open>docs\<close> and a file name to a normalised absolute directory.\<close>

lemma join_docs:
  assumes "\<forall>t \<in> set stk. plain_seg t" and "plain_seg f"
  shows "path_join [''/'' @ join_sep (rev stk), ''docs'', f] =
           ''/'' @ join_sep (rev stk @ [''docs'', f])"
proof -
  let ?J = "join_sep (rev stk)"
  let ?p = "''/'' @ ?J @ ''/'' @ ''docs'' @ ''/'' @ f"
  have f: "f \<noteq> []" "CHR ''/'' \<notin> set f" using assms(2) by (auto simp: plain_seg_def)
  have docs: "plain_seg ''docs''" by (simp add: plain_seg_def)
  have "split_sep ?p = [] # split_sep (?J @ CHR ''/'' # (''docs'' @ CHR ''/'' # f))"
    by simp
  also have "\<dots> = [] # split_sep ?J @ split_sep (''docs'' @ CHR ''/'' # f)"
    by (simp only: split_sep_append)
  also have "split_sep (''docs'' @ CHR ''/'' # f) = [''docs'', f]"
    using f by (simp only: split_sep_append) (simp add: split_sep_plain)
  finally have split: "split_sep ?p = [] # split_sep ?J @ [''docs'', f]" .
  have "foldl (norm_step False) [] (split_sep ?p) =
          foldl (norm_step False) (foldl (norm_step False) [] (split_sep ?J)) [''docs'', f]"
    by (simp only: split foldl_append foldl_Cons foldl_Nil norm_step_Nil)
  also have "foldl (norm_step False) [] (split_sep ?J) = stk"
    using foldl_norm_step_rejoin [OF assms(1), of False "[]"] by simp
  also have "foldl (norm_step False) stk [''docs'', f] = f # ''docs'' # stk"
    using assms(2) docs by (simp add: norm_step_push)
  finally have fold: "foldl (norm_step False) [] (split_sep ?p) = f # ''docs'' # stk" .
  have q: "normalizeString ?p False = join_sep (rev stk @ [''docs'', f])"
    by (simp only: normalizeString_def fold) simp
  have q_ne: "join_sep (rev stk @ [''docs'', f]) \<noteq> []"
    by (simp add: join_sep_Nil_iff)
  have last: "last ?p \<noteq> CHR ''/''"
    using last_plain_seg [OF assms(2), of "''/'' @ ?J @ ''/'' @ ''docs''"] by simp
  have "path_join [''/'' @ ?J, ''docs'', f] = path_normalize ?p"
    using f by (simp add: path_join_def)
  also have "\<dots> = ''/'' @ join_sep (rev stk @ [''docs'', f])"
    using q q_ne last by (simp add: path_normalize_def is_absolute_def Let_def)
  finally show ?thesis .
qed

text \<open>Normalising the directory followed by \<^verbatim>\<open>/../docs/\<close> and a file name.\<close>

lemma normalize_parent_docs:
  assumes "is_absolute d" and "plain_seg f"
  shows "path_normalize (d @ ''/../docs/'' @ f) =
           ''/'' @ join_sep (rev (norm_step False (foldl (norm_step False) [] (split_sep d)) ''..'')
                             @ [''docs'', f])"
proof -
  let ?p = "d @ ''/../docs/'' @ f"
  let ?stk = "norm_step False (foldl (norm_step False) [] (split_sep d)) ''..''"
  have d: "d \<noteq> []" using assms(1) by (auto simp: is_absolute_def)
  have f: "f \<noteq> []" "CHR ''/'' \<notin> set f" using assms(2) by (auto simp: plain_seg_def)
  have docs: "plain_seg ''docs''" by (simp add: plain_seg_def)
  have "?p = d @ CHR ''/'' # (''..'' @ CHR ''/'' # (''docs'' @ CHR ''/'' # f))" by simp
  then have "split_sep ?p = split_sep d @ split_sep ''..'' @ split_sep ''docs'' @ split_sep f"
    by (simp only: split_sep_append)
  then have split: "split_sep ?p = split_sep d @ [''..'', ''docs'', f]"
    using f by (simp add: split_sep_plain)
  have "foldl (norm_step False) [] (split_sep ?p) = foldl (norm_step False) ?stk [''docs'', f]"
    by (simp only: split foldl_append foldl_Cons foldl_Nil)
  also have "\<dots> = f # ''docs'' # ?stk"
    using assms(2) docs by (simp add: norm_step_push)
  finally have fold: "foldl (norm_step False) [] (split_sep ?p) = f # ''docs'' # ?stk" .
  have q: "normalizeString ?p False = join_sep (rev ?stk @ [''docs'', f])"
    by (simp only: normalizeString_def fold) simp
  have q_ne: "join_sep (rev ?stk @ [''docs'', f]) \<noteq> []"
    by (simp add: join_sep_Nil_iff)
  have last: "last ?p \<noteq> CHR ''/''"
    using last_plain_seg [OF assms(2), of "d @ ''/../docs''"] by simp
  have abs: "is_absolute ?p" using assms(1) d by (cases d) (simp_all add: is_absolute_def)
  show ?thesis
    using q q_ne last abs d by (simp add: path_normalize_def Let_def)
qed

lemma docs_path:
  assumes "is_absolute d" and "plain_seg f"
  shows "path_join [path_resolve c [d, ''..''], ''docs'', f] = path_normalize (d @ ''/../docs/'' @ f)"
  by (simp only: resolve_parent [OF assms(1)] join_docs [OF parent_stack_plain assms(2)]
      normalize_parent_docs [OF assms])





text \<open>
  C10. The script's directory is an absolute path. The input path is then that
  directory followed by \<^verbatim>\<open>/../docs/index.html\<close>, normalised, and the output path the
  same with \<^verbatim>\<open>aca_map.png\<close>; neither reads the working directory, the arguments or
  the environment, so any two runs of the script in the same directory resolve the same
  two paths.
\<close>

theorem paths_fixed_by_script_location:
  "is_absolute (dirname w) \<Longrightarrow>
     input_path w = path_normalize (dirname w @ ''/../docs/index.html'') \<and>
     output_path w = path_normalize (dirname w @ ''/../docs/aca_map.png'') \<and>
     (\<forall>w'. dirname w' = dirname w \<longrightarrow>
        input_path w' = input_path w \<and> output_path w' = output_path w)"
proof -
  assume abs: "is_absolute (dirname w)"
  have p1: "plain_seg ''index.html''" and p2: "plain_seg ''aca_map.png''"
    by (simp_all add: plain_seg_def)
  have "input_path v = path_normalize (dirname w @ ''/../docs/index.html'') \<and>
        output_path v = path_normalize (dirname w @ ''/../docs/aca_map.png'')"
    if "dirname v = dirname w" for v
    using docs_path [OF abs p1, of "cwd v"] docs_path [OF abs p2, of "cwd v"] that
    by (simp add: input_path_def output_path_def repoRoot_def)
  then show ?thesis by simp
qed

theorem paths_fixed_by_script_location_witness:
  "is_absolute (dirname good_world) \<and>
   dirname elsewhere_world = dirname good_world \<and>
   cwd elsewhere_world \<noteq> cwd good_world \<and>
   argv elsewhere_world \<noteq> argv good_world \<and>
   input_path elsewhere_world = input_path good_world \<and>
   output_path elsewhere_world = output_path good_world \<and>
   input_path good_world = ''/home/u/repo/docs/index.html'' \<and>
   output_path good_world = ''/home/u/repo/docs/aca_map.png''"
proof -
  have abs: "is_absolute (dirname good_world)"
    by (simp add: good_world_def is_absolute_def)
  have same: "dirname elsewhere_world = dirname good_world"
    by (simp add: elsewhere_world_def)
  have "path_normalize (dirname good_world @ ''/../docs/index.html'') = ''/home/u/repo/docs/index.html''"
    "path_normalize (dirname good_world @ ''/../docs/aca_map.png'') = ''/home/u/repo/docs/aca_map.png''"
    by (simp_all add: good_world_def path_normalize_def normalizeString_def norm_step_def
        is_absolute_def)
  then show ?thesis
    using paths_fixed_by_script_location [OF abs] abs same
    by (simp add: elsewhere_world_def good_world_def)
qed

subsection \<open>Parsing the configuration\<close>









subsection \<open>The readiness condition\<close>

text \<open>The polled function never throws, and its result is truthy exactly when the
  database value is truthy, its \<^verbatim>\<open>latest\<close> property is truthy, and there is a label.\<close>

lemma ready_fn_truthy:
  "map_option truthy (ready_fn pg) =
     Some (truthy (ACA_DB pg) \<and>
           (case get_prop (ACA_DB pg) ''latest'' of None \<Rightarrow> False | Some v \<Rightarrow> truthy v) \<and>
           0 < iata_tt pg)"
  by (cases "ACA_DB pg") (auto simp: ready_fn_def Let_def split: option.splits)

lemma tiles_fn_truthy:
  "map_option truthy (tiles_fn pg) = Some (list_all truthy (leaflet_tile pg))"
  by (simp add: tiles_fn_def)

text \<open>A polling wait whose function never throws resolves exactly when some evaluation
  before the bound is truthy, and times out otherwise.\<close>

lemma waitTask_Resolved_iff:
  assumes "\<And>pg. f pg = Some (P pg)"
  shows "waitTask f b obs = Resolved \<longleftrightarrow>
           (\<exists>(t, pg) \<in> set (takeWhile (\<lambda>(t, pg). t < b) obs). P pg)"
proof (induction obs)
  case Nil
  show ?case by simp
next
  case (Cons ob obs)
  obtain t pg where ob: "ob = (t, pg)" by (cases ob)
  show ?case
  proof (cases "t < b")
    case False
    then show ?thesis by (simp add: ob)
  next
    case True
    then show ?thesis
      using Cons.IH by (cases "P pg") (auto simp: ob assms)
  qed
qed

lemma waitTask_outcomes:
  assumes "\<And>pg. f pg = Some (P pg)"
  shows "waitTask f b obs = Resolved \<or> waitTask f b obs = Rejected TimeoutError"
  by (induction obs) (auto simp: assms split: if_splits)

text \<open>The tile wait resolves exactly when, at some evaluation before 60 000 ms, every
  tile element there is has a truthy \<^verbatim>\<open>complete\<close>; a page without tiles passes.\<close>

lemma tiles_wait_iff:
  "tiles_wait w = Resolved \<longleftrightarrow>
     (\<exists>(t, pg) \<in> set (takeWhile (\<lambda>(t, pg). t < 60000) (tile_obs w)).
        list_all truthy (leaflet_tile pg))"
  unfolding tiles_wait_def
  by (rule waitTask_Resolved_iff) (simp add: tiles_fn_truthy)

subsection \<open>Reading runs\<close>

lemma steps_readiness_sequence:
  "filter is_step (take n (readiness_sequence w)) = take n (readiness_sequence w)"
  by (rule filter_True) (auto simp: readiness_sequence_def dest!: in_set_takeD)


lemma steps_readiness_whole:
  "filter is_step (readiness_sequence w) = readiness_sequence w"
  by (simp add: readiness_sequence_def)


lemmas read_defs =
  caught_def finished_def steps_def written_def readiness_sequence_def the_order_def
  bounded_waits_def exit_code_def failed_def

lemmas run_defs =
  main_def try_block_def and_then_def call_def sleep_def throw_def console_log_def
  query_def screenshot_def selector_wait_def ready_wait_def tiles_wait_def

lemmas path_defs =
  input_path_def output_path_def repoRoot_def path_join_def path_resolve_def
  path_normalize_def normalizeString_def norm_step_def is_absolute_def

lemmas parse_defs =
  WIDTH_def HEIGHT_def SCALE_def parseInt10_def parseFloat_def env_or_def is_space_def
  is_digit_def digits_val_def digit_val_def exponent_part_def pow10_def launch_opts_def

lemmas page_defs =
  map_page_def blank_page_def loading_page_def zero_latest_page_def
  selector_fn_def ready_fn_def tiles_fn_def

subsection \<open>Sample runs\<close>

lemma good_world_paths:
  "input_path good_world = ''/home/u/repo/docs/index.html''"
  "output_path good_world = ''/home/u/repo/docs/aca_map.png''"
  by (simp_all add: good_world_def path_defs)

lemma good_world_viewport:
  "launch_opts good_world =
     \<lparr>headless = True,
      args = [''--no-sandbox'', ''--disable-setuid-sandbox'', ''--allow-file-access-from-files''],
      defaultViewport = \<lparr>width = Num 2400, height = Num 1600, deviceScaleFactor = Num 2\<rparr>\<rparr>"
  by (simp add: good_world_def parse_defs)

lemma good_world_run:
  "main good_world =
     \<lparr>trace = finished good_world \<lparr>box_width = 2400, box_height = 1600\<rparr>, status = Completed\<rparr>"
  by (simp add: run_defs finished_def readiness_sequence_def good_world_def path_defs page_defs)


lemma sample_paths:
  "input_path missing_world = ''/home/u/repo/docs/index.html''"
  "input_path goto_timeout_world = ''/home/u/repo/docs/index.html''"
  "input_path tiles_timeout_world = ''/home/u/repo/docs/index.html''"
  "output_path tiles_timeout_world = ''/home/u/repo/docs/aca_map.png''"
  "output_path close_rejected_world = ''/home/u/repo/docs/aca_map.png''"
  "output_path vanished_world = ''/home/u/repo/docs/aca_map.png''"
  by (simp_all add: missing_world_def goto_timeout_world_def tiles_timeout_world_def
      close_rejected_world_def vanished_world_def good_world_def path_defs)

lemma goto_timeout_run:
  "main goto_timeout_world =
     caught goto_timeout_world (take 2 (readiness_sequence goto_timeout_world)) TimeoutError"
  by (simp add: run_defs caught_def readiness_sequence_def goto_timeout_world_def good_world_def
      path_defs)

lemma tiles_timeout_wait: "tiles_wait tiles_timeout_world = Rejected TimeoutError"
  by (simp add: tiles_wait_def tiles_timeout_world_def good_world_def page_defs)

lemma tiles_timeout_run:
  "main tiles_timeout_world =
     caught tiles_timeout_world (take 5 (readiness_sequence tiles_timeout_world)) TimeoutError"
  by (simp add: run_defs caught_def readiness_sequence_def tiles_timeout_world_def good_world_def
      path_defs page_defs)


lemma vanished_run:
  "main vanished_world =
     caught vanished_world (readiness_sequence vanished_world)
       (Error ''Leaflet map element not found.'')"
  by (simp add: run_defs caught_def readiness_sequence_def vanished_world_def good_world_def
      path_defs page_defs)

lemma good_world_png:
  "png_size (defaultViewport (launch_opts good_world)) \<lparr>box_width = 2400, box_height = 1600\<rparr> =
     (Num 4800, Num 3200)"
  by (simp add: good_world_viewport png_size_def)


lemma good_world_reaches: "reaches_recheck good_world"
  by (simp add: reaches_recheck_def selector_wait_def ready_wait_def tiles_wait_def
      good_world_def path_defs page_defs)



subsection \<open>The run as a whole\<close>

text \<open>
  C3. When the input file does not exist, the run prints the message that names
  \<^verbatim>\<open>generate_map.py\<close> and exits with code 1 at once: these are its only two effects, so
  no browser is launched, no other call is made and no file is written.
\<close>

theorem missing_input_exits_before_launch:
  "\<not> existsSync w (input_path w) \<Longrightarrow>
     trace (main w) =
       [ConsoleError ''Missing docs/index.html. Run generate_map.py first.'' None, ProcessExit 1] \<and>
     status (main w) = Exited 1 \<and> exit_code (main w) = 1 \<and>
     steps (main w) = [] \<and> written (main w) = [] \<and>
     Launch (launch_opts w) \<notin> set (trace (main w))"
  by (simp add: main_def exit_code_def steps_def written_def)

theorem missing_input_exits_before_launch_witness:
  "\<not> existsSync missing_world (input_path missing_world) \<and>
   trace (main missing_world) =
     [ConsoleError ''Missing docs/index.html. Run generate_map.py first.'' None, ProcessExit 1] \<and>
   exit_code (main missing_world) = 1 \<and>
   steps (main missing_world) = [] \<and> written (main missing_world) = []"
  using missing_input_exits_before_launch [of missing_world]
  by (simp add: missing_world_def good_world_def)

text \<open>
  C1, at a run whose navigation times out. The browser has been launched; the
  \<^verbatim>\<open>catch\<close> block prints the error and calls \<^verbatim>\<open>process.exit(1)\<close>, which ends the
  process there. The \<^verbatim>\<open>finally\<close> block is not reached: the run makes no call to
  \<^verbatim>\<open>browser.close()\<close>.
\<close>

theorem failed_run_skips_browser_close:
  "launch_result goto_timeout_world = Resolved \<and>
   trace (main goto_timeout_world) =
     [Launch (launch_opts goto_timeout_world),
      NewPage,
      Goto ''file:///home/u/repo/docs/index.html'' ''load'' 120000,
      ConsoleError ''Screenshot failed:'' (Some TimeoutError),
      ProcessExit 1] \<and>
   status (main goto_timeout_world) = Exited 1 \<and>
   count_list (trace (main goto_timeout_world)) BrowserClose = 0"
  by (simp add: goto_timeout_run caught_def readiness_sequence_def sample_paths)
     (simp add: goto_timeout_world_def good_world_def)

text \<open>In general, the browser is closed by the script exactly in the runs whose
  \<^verbatim>\<open>try\<close> block returns, and then once.\<close>

lemma browser_close_count:
  "count_list (trace (main w)) BrowserClose =
     (if reaches_recheck w \<and> leaflet_container (final_page w) \<noteq> None \<and>
         screenshot_result w = Resolved
      then 1 else 0)"
  by (cases w rule: run_cases) (auto simp: read_defs reaches_recheck_def)

text \<open>
  C2, at a run in which one tile is still loading at every poll before 60 000 ms. The
  wait times out and the run ends as for any other rejected call: exit code 1 and
  nothing written, the tile wait being its last step. The run that differs only in that
  the tiles are complete runs to its end and writes the image.
\<close>

theorem tile_wait_timeout_is_fatal:
  "tiles_wait tiles_timeout_world = Rejected TimeoutError \<and>
   status (main tiles_timeout_world) = Exited 1 \<and>
   last (steps (main tiles_timeout_world)) = WaitForFunction TilesFn 60000 \<and>
   written (main tiles_timeout_world) = [] \<and>
   status (main good_world) = Completed \<and>
   written (main good_world) = [WriteFile ''/home/u/repo/docs/aca_map.png'' (Num 4800, Num 3200)]"
  by (simp add: tiles_timeout_wait tiles_timeout_run good_world_run read_defs good_world_paths
      good_world_png)






lemma steps_caught:
  "filter is_step es = es \<Longrightarrow> steps (caught w es e) = Launch (launch_opts w) # es"
  by (simp add: steps_def caught_def)

lemma steps_finished:
  "steps \<lparr>trace = finished w el, status = st\<rparr> = the_order w el"
  by (simp add: steps_def finished_def the_order_def steps_readiness_whole)

text \<open>The steps of a run are an initial part of the one order.\<close>

lemma steps_prefix: "\<exists>n el. steps (main w) = take n (the_order w el)"
proof -
  define el0 where "el0 = \<lparr>box_width = 0, box_height = 0\<rparr>"
  show ?thesis
  proof (cases w rule: run_cases)
    case missing
    then have "steps (main w) = take 0 (the_order w el0)" by (simp add: steps_def)
    then show ?thesis by blast
  next
    case (launch e)
    then have "steps (main w) = take 1 (the_order w el0)"
      by (simp add: steps_def the_order_def)
    then show ?thesis by blast
  next
    case (newPage e)
    then have "steps (main w) = take 2 (the_order w el0)"
      by (simp add: steps_caught steps_readiness_sequence the_order_def readiness_sequence_def)
    then show ?thesis by blast
  next
    case (goto e)
    then have "steps (main w) = take 3 (the_order w el0)"
      by (simp add: steps_caught steps_readiness_sequence the_order_def readiness_sequence_def)
    then show ?thesis by blast
  next
    case (selector e)
    then have "steps (main w) = take 4 (the_order w el0)"
      by (simp add: steps_caught steps_readiness_sequence the_order_def readiness_sequence_def)
    then show ?thesis by blast
  next
    case (ready e)
    then have "steps (main w) = take 5 (the_order w el0)"
      by (simp add: steps_caught steps_readiness_sequence the_order_def readiness_sequence_def)
    then show ?thesis by blast
  next
    case (tiles e)
    then have "steps (main w) = take 6 (the_order w el0)"
      by (simp add: steps_caught steps_readiness_sequence the_order_def readiness_sequence_def)
    then show ?thesis by blast
  next
    case (evaluate e)
    then have "steps (main w) = take 8 (the_order w el0)"
      by (simp add: steps_caught steps_readiness_sequence the_order_def readiness_sequence_def)
    then show ?thesis by blast
  next
    case (query e)
    then have "steps (main w) = take 10 (the_order w el0)"
      by (simp add: steps_caught steps_readiness_whole the_order_def readiness_sequence_def)
    then show ?thesis by blast
  next
    case absent
    then have "steps (main w) = take 10 (the_order w el0)"
      by (simp add: steps_caught steps_readiness_whole the_order_def readiness_sequence_def)
    then show ?thesis by blast
  next
    case (shot e el)
    then have "steps (main w) = take 11 (the_order w el)"
      by (simp add: steps_caught steps_readiness_whole the_order_def readiness_sequence_def)
    then show ?thesis by blast
  next
    case (closed el)
    then have "steps (main w) = take 12 (the_order w el)"
      by (simp add: steps_finished) (simp add: the_order_def readiness_sequence_def)
    then show ?thesis by blast
  next
    case (close_rejected e el)
    then have "steps (main w) = take 12 (the_order w el)"
      by (simp add: steps_finished) (simp add: the_order_def readiness_sequence_def)
    then show ?thesis by blast
  qed
qed

lemma steps_distinct: "distinct (steps (main w))"
proof -
  obtain n el where "steps (main w) = take n (the_order w el)"
    using steps_prefix by blast
  then show ?thesis
    by (simp add: the_order_def readiness_sequence_def distinct_take del: take_Cons')
qed

lemma steps_completed: "status (main w) = Completed \<Longrightarrow> \<exists>el. steps (main w) = the_order w el"
  by (cases w rule: run_cases) (auto simp: caught_def steps_finished)

text \<open>A bounded wait that was begun and timed out is the last step of its run, and the
  run exits with code 1.\<close>

lemma timeout_is_fatal:
  "(ev, oc) \<in> set (bounded_waits w) \<Longrightarrow> ev \<in> set (steps (main w)) \<Longrightarrow>
   oc = Rejected TimeoutError \<Longrightarrow>
   status (main w) = Exited 1 \<and> last (steps (main w)) = ev"
  by (cases w rule: run_cases)
     (auto simp: read_defs reaches_recheck_def)

text \<open>
  C5. The steps of every run are an initial part of one fixed order: launch, new page
  and navigation (bound 120 000 ms, on \<^verbatim>\<open>load\<close>), the wait for the map container
  (60 000 ms), the readiness wait (60 000 ms), the tile wait (60 000 ms), the delay of
  600 ms, the resize, the delay of 100 ms, the second look for the container, the
  screenshot, the close. No step occurs twice in a run, a run that completes has made
  all of them, and a bounded wait that times out is the last step of its run, which
  exits with code 1.
\<close>

theorem one_order_no_retry:
  "(\<exists>n el. steps (main w) = take n (the_order w el)) \<and>
   distinct (steps (main w)) \<and>
   (status (main w) = Completed \<longrightarrow> (\<exists>el. steps (main w) = the_order w el)) \<and>
   (\<forall>(ev, oc) \<in> set (bounded_waits w).
      ev \<in> set (steps (main w)) \<and> oc = Rejected TimeoutError \<longrightarrow>
      status (main w) = Exited 1 \<and> last (steps (main w)) = ev)"
  using steps_prefix [of w] steps_distinct [of w] steps_completed [of w] timeout_is_fatal [of _ _ w]
  by blast

theorem one_order_no_retry_witness:
  "status (main good_world) = Completed \<and>
   steps (main good_world) = the_order good_world \<lparr>box_width = 2400, box_height = 1600\<rparr> \<and>
   (WaitForFunction TilesFn 60000, Rejected TimeoutError) \<in> set (bounded_waits tiles_timeout_world) \<and>
   WaitForFunction TilesFn 60000 \<in> set (steps (main tiles_timeout_world)) \<and>
   status (main tiles_timeout_world) = Exited 1 \<and>
   last (steps (main tiles_timeout_world)) = WaitForFunction TilesFn 60000"
  using one_order_no_retry [of good_world] one_order_no_retry [of tiles_timeout_world]
  by (simp add: good_world_run steps_finished tiles_timeout_run tiles_timeout_wait
      bounded_waits_def steps_caught steps_readiness_sequence)
     (simp add: readiness_sequence_def)




subsection \<open>The readiness gate\<close>

lemma zero_latest_wait: "ready_wait zero_latest_world = Rejected TimeoutError"
  by (simp add: ready_wait_def zero_latest_world_def good_world_def page_defs)

lemma zero_latest_run:
  "main zero_latest_world =
     caught zero_latest_world (take 4 (readiness_sequence zero_latest_world)) TimeoutError"
  by (simp add: run_defs caught_def readiness_sequence_def zero_latest_world_def good_world_def
      path_defs page_defs)

text \<open>
  C6, as stated, at a page whose database object has a \<^verbatim>\<open>latest\<close> field holding 0
  and which shows three labels: the condition in the specification's words holds, the
  polled function is falsy, and a run that sees only this page until the bound times out.
\<close>

theorem latest_zero_counterexample:
  "spec_ready zero_latest_page \<and>
   map_option truthy (ready_fn zero_latest_page) = Some False \<and>
   ready_wait zero_latest_world = Rejected TimeoutError \<and>
   status (main zero_latest_world) = Exited 1"
  by (simp add: zero_latest_wait zero_latest_run caught_def)
     (simp add: spec_ready_def page_defs)

lemma ready_wait_fatal:
  "WaitForFunction ReadyFn 60000 \<in> set (steps (main w)) \<Longrightarrow> ready_wait w \<noteq> Resolved \<Longrightarrow>
   status (main w) = Exited 1 \<and> last (steps (main w)) = WaitForFunction ReadyFn 60000 \<and>
   written (main w) = []"
  by (cases w rule: run_cases) (auto simp: read_defs reaches_recheck_def)

text \<open>
  C6, amended. The polled function is truthy exactly when \<^verbatim>\<open>window.ACA_DB\<close> is
  truthy, its \<^verbatim>\<open>latest\<close> property is truthy (present, and not null, undefined, false,
  0, NaN or the empty string), and at least one label exists. The gate resolves exactly
  when one of the evaluations before 60 000 ms is truthy, and otherwise times out; a run
  whose gate does not resolve ends there with exit code 1 and nothing written.
\<close>

theorem readiness_gate:
  "map_option truthy (ready_fn pg) =
     Some (truthy (ACA_DB pg) \<and>
           (case get_prop (ACA_DB pg) ''latest'' of None \<Rightarrow> False | Some v \<Rightarrow> truthy v) \<and>
           0 < iata_tt pg) \<and>
   (ready_wait w = Resolved \<longleftrightarrow>
      (\<exists>(t, pg) \<in> set (takeWhile (\<lambda>(t, pg). t < 60000) (ready_obs w)).
         truthy (ACA_DB pg) \<and>
         (case get_prop (ACA_DB pg) ''latest'' of None \<Rightarrow> False | Some v \<Rightarrow> truthy v) \<and>
         0 < iata_tt pg)) \<and>
   (ready_wait w \<noteq> Resolved \<longrightarrow> ready_wait w = Rejected TimeoutError) \<and>
   (WaitForFunction ReadyFn 60000 \<in> set (steps (main w)) \<and> ready_wait w \<noteq> Resolved \<longrightarrow>
      status (main w) = Exited 1 \<and> last (steps (main w)) = WaitForFunction ReadyFn 60000 \<and>
      written (main w) = [])"
proof -
  let ?P = "\<lambda>pg. truthy (ACA_DB pg) \<and>
             (case get_prop (ACA_DB pg) ''latest'' of None \<Rightarrow> False | Some v \<Rightarrow> truthy v) \<and>
             0 < iata_tt pg"
  have f: "(map_option truthy \<circ> ready_fn) pg = Some (?P pg)" for pg
    by (simp add: ready_fn_truthy)
  have "ready_wait w = Resolved \<longleftrightarrow>
          (\<exists>(t, pg) \<in> set (takeWhile (\<lambda>(t, pg). t < 60000) (ready_obs w)). ?P pg)"
    unfolding ready_wait_def by (rule waitTask_Resolved_iff) (rule f)
  moreover have "ready_wait w = Resolved \<or> ready_wait w = Rejected TimeoutError"
    unfolding ready_wait_def by (rule waitTask_outcomes) (rule f)
  ultimately show ?thesis
    using ready_fn_truthy [of pg] ready_wait_fatal [of w] by blast
qed

theorem readiness_gate_witness:
  "ready_wait good_world = Resolved \<and>
   truthy (ACA_DB map_page) \<and> 0 < iata_tt map_page \<and>
   map_option truthy (ready_fn map_page) = Some True \<and>
   WaitForFunction ReadyFn 60000 \<in> set (steps (main zero_latest_world)) \<and>
   ready_wait zero_latest_world \<noteq> Resolved \<and>
   status (main zero_latest_world) = Exited 1 \<and>
   last (steps (main zero_latest_world)) = WaitForFunction ReadyFn 60000 \<and>
   written (main zero_latest_world) = []"
proof -
  have "WaitForFunction ReadyFn 60000 \<in> set (steps (main zero_latest_world))"
    by (simp add: zero_latest_run steps_caught steps_readiness_sequence readiness_sequence_def)
  moreover have "ready_wait zero_latest_world \<noteq> Resolved"
    by (simp add: zero_latest_wait)
  moreover have "ready_wait good_world = Resolved"
    using good_world_reaches by (simp add: reaches_recheck_def)
  moreover have "truthy (ACA_DB map_page) \<and> 0 < iata_tt map_page"
    by (simp add: map_page_def)
  moreover have "get_prop (ACA_DB map_page) ''latest'' = Some (String ''2024-01'')"
    by (simp add: map_page_def)
  ultimately show ?thesis
    using readiness_gate [of map_page zero_latest_world] by simp
qed


subsection \<open>Configuration and image size\<close>

















end
